theory Spec2Isabelle
  imports Complex_Main
begin

section \<open>Data model\<close>

text \<open>
  The supervisor of \<^verbatim>\<open>supervisor_agent.py\<close> keeps two class-level dictionaries keyed by
  thread id: \<^verbatim>\<open>thread_store\<close> (the dialogue lane) and \<^verbatim>\<open>supervisor_thread_store\<close> (the
  routing lane). A thread is represented by its serialized state, a list of messages, so
  \<^verbatim>\<open>serialize\<close> and \<^verbatim>\<open>update_from_thread_state\<close> on a new thread are the identity and
  do not raise.
\<close>

type_synonym thread_id = string

datatype role = User | Assistant | ToolResult

type_synonym message = "role \<times> string"

type_synonym thread = "message list"

text \<open>
  Exceptions are values. \<^verbatim>\<open>AgentThreadException\<close> is the one the source raises itself;
  \<^verbatim>\<open>Exception\<close> stands for any other exception derived from \<^verbatim>\<open>Exception\<close> that the
  agent framework or a sub-agent raises; \<^verbatim>\<open>BaseException\<close> stands for one that is not
  derived from \<^verbatim>\<open>Exception\<close> (\<^verbatim>\<open>asyncio.CancelledError\<close>, \<^verbatim>\<open>KeyboardInterrupt\<close>). The
  string is what \<^verbatim>\<open>str(e)\<close> prints. \<open>is_Exception\<close> is what an \<^verbatim>\<open>except Exception\<close>
  clause catches.
\<close>

datatype exn = AgentThreadException string | Exception string | BaseException string

fun str :: "exn \<Rightarrow> string" where
  "str (AgentThreadException m) = m"
| "str (Exception m) = m"
| "str (BaseException m) = m"

fun is_Exception :: "exn \<Rightarrow> bool" where
  "is_Exception (AgentThreadException m) = True"
| "is_Exception (Exception m) = True"
| "is_Exception (BaseException m) = False"

text \<open>The three sub-agents handed to \<^verbatim>\<open>SupervisorAgent.__init__\<close>.\<close>

datatype responder = AccountAgent | TransactionHistoryAgent | PaymentAgent

text \<open>
  The tools list given to \<^verbatim>\<open>create_agent\<close> in \<^verbatim>\<open>_build_af_agent\<close>:
  \<^verbatim>\<open>[route_to_account_agent, route_to_transaction_agent, route_to_payment_agent]\<close>.
\<close>

datatype tool = RouteToAccount | RouteToTransaction | RouteToPayment

text \<open>
  The chat agent of the framework is external. What a call of \<^verbatim>\<open>agent.run\<close> does is
  given as a tree: it returns a response text and leaves the thread it was given in a
  new state, or it raises, or it invokes one of its tools with a message it generated
  and goes on according to what the tool returned or raised. Every branch is finite.
\<close>

datatype agent_run =
    Return string thread
  | Raise exn
  | Invoke tool string "exn + string \<Rightarrow> agent_run"

text \<open>
  \<^verbatim>\<open>agent.run_stream\<close> is the same, with chunks in between. A chunk is \<^verbatim>\<open>None\<close> when it
  has no \<^verbatim>\<open>text\<close> attribute (or its text is \<^verbatim>\<open>None\<close>).
\<close>

datatype agent_stream =
    SEnd thread
  | SRaise exn
  | SChunk "string option" agent_stream
  | SInvoke tool string "exn + string \<Rightarrow> agent_stream"

text \<open>
  The supervisor's chat agent: \<^verbatim>\<open>run\<close>, and \<^verbatim>\<open>run_stream\<close> when the object has that
  attribute (\<^verbatim>\<open>hasattr(agent, 'run_stream')\<close>).
\<close>

record chat_agent =
  run :: "string \<Rightarrow> thread \<Rightarrow> agent_run"
  run_stream :: "(string \<Rightarrow> thread \<Rightarrow> agent_stream) option"

text \<open>
  The chat agent a sub-agent builds. Its \<^verbatim>\<open>run\<close> takes the utterance and the thread,
  leaves the thread in a new state and returns a text or raises. \<^verbatim>\<open>sub_run_stream\<close> is
  its streaming capability, if it has one; the supervisor never reads it.
\<close>

record sub_chat_agent =
  sub_run :: "string \<Rightarrow> thread \<Rightarrow> thread \<times> (exn + string)"
  sub_run_stream :: "(string \<Rightarrow> thread \<Rightarrow> string list) option"

text \<open>
  The collaborators of one turn: the result of \<^verbatim>\<open>str(uuid4())\<close>, of
  \<^verbatim>\<open>azure_chat_client.create_agent\<close>, and of each sub-agent's \<^verbatim>\<open>build_af_agent\<close>
  (which connects to MCP servers and may raise).
\<close>

record env =
  uuid4 :: string
  create_agent :: "exn + chat_agent"
  account_agent :: "exn + sub_chat_agent"
  transaction_agent :: "exn + sub_chat_agent"
  payment_agent :: "exn + sub_chat_agent"

text \<open>
  The state: the two class-level stores, the instance attributes \<^verbatim>\<open>current_thread\<close> and
  \<^verbatim>\<open>user_message\<close> (both assigned by each entry point before the agent runs), and
  \<open>handled\<close>, the record of the calls the responders received: which one, and the
  utterance passed to its \<^verbatim>\<open>run\<close>.
\<close>

record state =
  thread_store :: "thread_id \<rightharpoonup> thread"
  supervisor_thread_store :: "thread_id \<rightharpoonup> thread"
  current_thread :: thread
  user_message :: string
  handled :: "(responder \<times> string) list"

type_synonym element = "string \<times> bool \<times> thread_id option"

section \<open>The supervisor\<close>

definition get_new_thread :: thread where
  "get_new_thread = []"

definition serialize :: "thread \<Rightarrow> thread" where
  "serialize th = th"

definition update_from_thread_state :: "thread \<Rightarrow> thread" where
  "update_from_thread_state serialized = serialized"

text \<open>
  The call \<^verbatim>\<open>af_agent.run(utterance, thread=self.current_thread)\<close> on the chat agent of
  responder \<open>r\<close>: the agent runs on the utterance it is passed and on the current thread,
  which it changes in place, and returns \<^verbatim>\<open>response.text\<close> or raises. The call is
  recorded in \<open>handled\<close> with the utterance that was passed.
\<close>

definition responder_run :: "responder \<Rightarrow> sub_chat_agent \<Rightarrow> string \<Rightarrow> state \<Rightarrow> state \<times> (exn + string)" where
  "responder_run r af_agent utterance st =
     (case sub_run af_agent utterance (current_thread st) of
        (th, response) \<Rightarrow>
          (st\<lparr>current_thread := th, handled := handled st @ [(r, utterance)]\<rparr>, response))"

text \<open>
  The body shared by the three routing tools: build the sub-agent's chat agent, run it on
  \<^verbatim>\<open>self.user_message\<close> and \<^verbatim>\<open>self.current_thread\<close>, return \<^verbatim>\<open>response.text\<close>. The
  argument \<open>generated\<close> (the tool parameter \<^verbatim>\<open>user_message\<close>, written by the supervisor's
  model) is not used.
\<close>

definition route_to :: "responder \<Rightarrow> exn + sub_chat_agent \<Rightarrow> string \<Rightarrow> state \<Rightarrow> state \<times> (exn + string)" where
  "route_to r built generated st =
     (case built of
        Inl e \<Rightarrow> (st, Inl e)
      | Inr af_agent \<Rightarrow> responder_run r af_agent (user_message st) st)"

definition route_to_account_agent :: "env \<Rightarrow> string \<Rightarrow> state \<Rightarrow> state \<times> (exn + string)" where
  "route_to_account_agent env generated st = route_to AccountAgent (account_agent env) generated st"

definition route_to_transaction_agent :: "env \<Rightarrow> string \<Rightarrow> state \<Rightarrow> state \<times> (exn + string)" where
  "route_to_transaction_agent env generated st =
     route_to TransactionHistoryAgent (transaction_agent env) generated st"

definition route_to_payment_agent :: "env \<Rightarrow> string \<Rightarrow> state \<Rightarrow> state \<times> (exn + string)" where
  "route_to_payment_agent env generated st = route_to PaymentAgent (payment_agent env) generated st"

fun call_tool :: "env \<Rightarrow> tool \<Rightarrow> string \<Rightarrow> state \<Rightarrow> state \<times> (exn + string)" where
  "call_tool env RouteToAccount generated st = route_to_account_agent env generated st"
| "call_tool env RouteToTransaction generated st = route_to_transaction_agent env generated st"
| "call_tool env RouteToPayment generated st = route_to_payment_agent env generated st"

text \<open>Running \<^verbatim>\<open>agent.run\<close>: the tools it invokes act on the supervisor's state.\<close>

primrec exec_run :: "env \<Rightarrow> agent_run \<Rightarrow> state \<Rightarrow> state \<times> (exn + string \<times> thread)" where
  "exec_run env (Return response_text th) = (\<lambda>st. (st, Inr (response_text, th)))"
| "exec_run env (Raise e) = (\<lambda>st. (st, Inl e))"
| "exec_run env (Invoke t generated k) =
     (\<lambda>st. case call_tool env t generated st of (st', outcome) \<Rightarrow> exec_run env (k outcome) st')"

text \<open>
  The loop over \<^verbatim>\<open>agent.run_stream\<close> (lines 112 to 117): a chunk with a non-empty text
  is yielded as \<^verbatim>\<open>(content, False, None)\<close>. The result is the state, the elements yielded,
  and the thread at the end of the stream or the exception that ended it. The local
  \<^verbatim>\<open>full_response\<close> is only ever assigned and is left out.
\<close>

fun yield_chunk :: "string option \<Rightarrow> element list" where
  "yield_chunk None = []"
| "yield_chunk (Some content) = (if content = [] then [] else [(content, False, None)])"

primrec exec_stream :: "env \<Rightarrow> agent_stream \<Rightarrow> state \<Rightarrow> state \<times> element list \<times> (exn + thread)" where
  "exec_stream env (SEnd th) = (\<lambda>st. (st, [], Inr th))"
| "exec_stream env (SRaise e) = (\<lambda>st. (st, [], Inl e))"
| "exec_stream env (SChunk c rest) =
     (\<lambda>st. case exec_stream env rest st of
             (st', ys, res) \<Rightarrow> (st', yield_chunk c @ ys, res))"
| "exec_stream env (SInvoke t generated k) =
     (\<lambda>st. case call_tool env t generated st of
             (st', outcome) \<Rightarrow> exec_stream env (k outcome) st')"

text \<open>
  Thread creation or resumption, the same statements in \<^verbatim>\<open>processMessage\<close> (lines 143 to
  168) and \<^verbatim>\<open>processMessageStream\<close> (lines 76 to 95). The result is the processed thread
  id and the supervisor's resumed thread, or the \<^verbatim>\<open>AgentThreadException\<close>.
\<close>

definition not_found :: "thread_id \<Rightarrow> exn" where
  "not_found tid = AgentThreadException (''Thread id '' @ tid @ '' not found in thread stores'')"

definition resume_thread :: "env \<Rightarrow> state \<Rightarrow> thread_id option \<Rightarrow> state \<times> (exn + thread_id \<times> thread)" where
  "resume_thread env st thread_id =
     (let supervisor_resumed_thread = get_new_thread in
      case thread_id of
        None \<Rightarrow>
          (let st1 = st\<lparr>current_thread := get_new_thread\<rparr>;
               processed_thread_id = uuid4 env;
               st2 = st1\<lparr>thread_store :=
                         (thread_store st1)(processed_thread_id \<mapsto> serialize (current_thread st1))\<rparr>;
               st3 = st2\<lparr>supervisor_thread_store :=
                         (supervisor_thread_store st2)(processed_thread_id \<mapsto>
                            serialize supervisor_resumed_thread)\<rparr>
           in (st3, Inr (processed_thread_id, supervisor_resumed_thread)))
      | Some processed_thread_id \<Rightarrow>
          (case (thread_store st processed_thread_id,
                 supervisor_thread_store st processed_thread_id) of
             (Some serialized_thread, Some supervisor_serialized_thread) \<Rightarrow>
               (st\<lparr>current_thread := update_from_thread_state serialized_thread\<rparr>,
                Inr (processed_thread_id, update_from_thread_state supervisor_serialized_thread))
           | _ \<Rightarrow> (st, Inl (not_found processed_thread_id))))"

text \<open>
  \<^verbatim>\<open>processMessage\<close>: nothing is caught, so an exception of \<^verbatim>\<open>_build_af_agent\<close>, the
  \<^verbatim>\<open>AgentThreadException\<close> and an exception of \<^verbatim>\<open>agent.run\<close> all leave the function.
\<close>

definition processMessage :: "env \<Rightarrow> state \<Rightarrow> string \<Rightarrow> thread_id option \<Rightarrow> state \<times> (exn + string \<times> thread_id)" where
  "processMessage env st user_msg thread_id =
     (case create_agent env of
        Inl e \<Rightarrow> (st, Inl e)
      | Inr agent \<Rightarrow>
          (case resume_thread env st thread_id of
             (st1, Inl e) \<Rightarrow> (st1, Inl e)
           | (st1, Inr (processed_thread_id, supervisor_resumed_thread)) \<Rightarrow>
               (case exec_run env (run agent user_msg supervisor_resumed_thread)
                       (st1\<lparr>user_message := user_msg\<rparr>) of
                  (st2, Inl e) \<Rightarrow> (st2, Inl e)
                | (st2, Inr (response_text, supervisor_thread)) \<Rightarrow>
                    (st2\<lparr>thread_store :=
                           (thread_store st2)(processed_thread_id \<mapsto> serialize (current_thread st2)),
                         supervisor_thread_store :=
                           (supervisor_thread_store st2)(processed_thread_id \<mapsto>
                              serialize supervisor_thread)\<rparr>,
                     Inr (response_text, processed_thread_id)))))"

text \<open>The three messages of \<^verbatim>\<open>processMessageStream\<close> (lines 106, 120 and 134).\<close>

definition streaming_unsupported :: string where
  "streaming_unsupported =
     ''Streaming is not supported by this agent. Please disable streaming in your settings and try again.''"

definition streaming_failed :: "exn \<Rightarrow> string" where
  "streaming_failed e = ''Streaming failed: '' @ str e @ ''. Please try again or disable streaming.''"

definition apology :: "exn \<Rightarrow> string" where
  "apology e =
     ''I apologize, but I encountered an error while processing your request: '' @ str e"

text \<open>
  The outer handler of \<^verbatim>\<open>processMessageStream\<close> (lines 131 to 135), an
  \<^verbatim>\<open>except Exception\<close>: an exception it catches is yielded as a final element with the
  \<^verbatim>\<open>thread_id\<close> the caller passed; any other exception leaves the generator.
\<close>

definition outer_handler :: "state \<Rightarrow> exn \<Rightarrow> thread_id option \<Rightarrow> state \<times> element list \<times> exn option" where
  "outer_handler st e thread_id =
     (if is_Exception e then (st, [(apology e, True, thread_id)], None) else (st, [], Some e))"

text \<open>
  \<^verbatim>\<open>processMessageStream\<close>: the result is the state, the sequence of elements yielded,
  and the exception with which the generator ends, if it ends with one. The inner handler
  (line 118) is an \<^verbatim>\<open>except Exception\<close> too: a stream error it catches is yielded with
  \<^verbatim>\<open>processed_thread_id\<close>; one it does not catch is not caught by the outer handler
  either, and leaves the generator after the chunks already yielded. The caller is taken
  to read the generator to its end.
\<close>

definition processMessageStream :: "env \<Rightarrow> state \<Rightarrow> string \<Rightarrow> thread_id option \<Rightarrow> state \<times> element list \<times> exn option" where
  "processMessageStream env st user_msg thread_id =
     (case create_agent env of
        Inl e \<Rightarrow> outer_handler st e thread_id
      | Inr agent \<Rightarrow>
          (case resume_thread env st thread_id of
             (st1, Inl e) \<Rightarrow> outer_handler st1 e thread_id
           | (st1, Inr (processed_thread_id, supervisor_resumed_thread)) \<Rightarrow>
               (let st2 = st1\<lparr>user_message := user_msg\<rparr> in
                case run_stream agent of
                  None \<Rightarrow> (st2, [(streaming_unsupported, True, Some processed_thread_id)], None)
                | Some agent_run_stream \<Rightarrow>
                    (case exec_stream env (agent_run_stream user_msg supervisor_resumed_thread) st2 of
                       (st3, chunks, Inl stream_error) \<Rightarrow>
                         (if is_Exception stream_error
                          then (st3,
                                chunks @ [(streaming_failed stream_error, True, Some processed_thread_id)],
                                None)
                          else (st3, chunks, Some stream_error))
                     | (st3, chunks, Inr supervisor_thread) \<Rightarrow>
                         (st3\<lparr>thread_store :=
                                (thread_store st3)(processed_thread_id \<mapsto>
                                   serialize (current_thread st3)),
                              supervisor_thread_store :=
                                (supervisor_thread_store st3)(processed_thread_id \<mapsto>
                                   serialize supervisor_thread)\<rparr>,
                          chunks @ [([], True, Some processed_thread_id)], None)))))"

section \<open>The payment tool\<close>

text \<open>
  \<^verbatim>\<open>process_payment\<close> of \<^verbatim>\<open>mcp_tools.py\<close>. The class \<^verbatim>\<open>Payment\<close> and the payment
  service are imported from modules outside the tool: the constructor and the service
  call are parameters, either of which may raise. The record holds the keyword arguments
  the tool passes to \<^verbatim>\<open>Payment\<close>. The returned dictionary is a map.
\<close>

record payment =
  accountId :: string
  amount :: real
  description :: string
  recipientName :: "string option"
  recipientBankCode :: "string option"
  paymentMethodId :: string
  paymentType :: "string option"
  timestamp :: string

definition process_payment ::
  "(payment \<Rightarrow> exn + 'p) \<Rightarrow> ('p \<Rightarrow> exn + 'r) \<Rightarrow>
   string \<Rightarrow> real \<Rightarrow> string \<Rightarrow> string \<Rightarrow> string \<Rightarrow>
   string option \<Rightarrow> string option \<Rightarrow> string option \<Rightarrow> exn + (string \<rightharpoonup> string)" where
  "process_payment Payment payment_service_process_payment
     account_id amount' description' payment_method_id timestamp'
     recipient_name recipient_bank_code payment_type =
     (case Payment \<lparr>accountId = account_id, amount = amount', description = description',
                    recipientName = recipient_name, recipientBankCode = recipient_bank_code,
                    paymentMethodId = payment_method_id, paymentType = payment_type,
                    timestamp = timestamp'\<rparr> of
        Inl e \<Rightarrow> Inl e
      | Inr payment_obj \<Rightarrow>
          (case payment_service_process_payment payment_obj of
             Inl e \<Rightarrow> Inl e
           | Inr _ \<Rightarrow> Inr [''status'' \<mapsto> ''ok'']))"

section \<open>Notions used in the statements\<close>

text \<open>A sequence of turns, streaming or not, each with its own collaborators.\<close>

datatype turn =
    Turn env string "thread_id option"
  | StreamTurn env string "thread_id option"

fun run_turn :: "state \<Rightarrow> turn \<Rightarrow> state" where
  "run_turn st (Turn env user_msg thread_id) = fst (processMessage env st user_msg thread_id)"
| "run_turn st (StreamTurn env user_msg thread_id) =
     fst (processMessageStream env st user_msg thread_id)"

definition run_turns :: "turn list \<Rightarrow> state \<Rightarrow> state" where
  "run_turns turns st = foldl run_turn st turns"

text \<open>The two stores have the same keys.\<close>

definition coupled :: "state \<Rightarrow> bool" where
  "coupled st \<longleftrightarrow> dom (thread_store st) = dom (supervisor_thread_store st)"

text \<open>
  The session id a turn works on: the one supplied, or the one minted. The two lanes a
  turn starts from: empty threads for a new session, the stored ones otherwise.
\<close>

fun resolved :: "env \<Rightarrow> thread_id option \<Rightarrow> thread_id" where
  "resolved env None = uuid4 env"
| "resolved env (Some t) = t"

fun lanes :: "state \<Rightarrow> thread_id option \<Rightarrow> (thread \<times> thread) option" where
  "lanes st None = Some ([], [])"
| "lanes st (Some t) =
     (case (thread_store st t, supervisor_thread_store st t) of
        (Some d, Some r) \<Rightarrow> Some (d, r)
      | _ \<Rightarrow> None)"

text \<open>
  The dialogue thread after a list of responder calls: each responder's \<^verbatim>\<open>run\<close> in turn,
  on the thread the one before left.
\<close>

fun sub_agent_of :: "env \<Rightarrow> responder \<Rightarrow> exn + sub_chat_agent" where
  "sub_agent_of env AccountAgent = account_agent env"
| "sub_agent_of env TransactionHistoryAgent = transaction_agent env"
| "sub_agent_of env PaymentAgent = payment_agent env"

fun replay :: "env \<Rightarrow> (responder \<times> string) list \<Rightarrow> thread \<Rightarrow> thread" where
  "replay env [] th = th"
| "replay env ((r, utterance) # calls) th =
     (case sub_agent_of env r of
        Inl e \<Rightarrow> replay env calls th
      | Inr af_agent \<Rightarrow> replay env calls (fst (sub_run af_agent utterance th)))"

text \<open>
  The responder a routing tool stands for.
\<close>

fun responder_of :: "tool \<Rightarrow> responder" where
  "responder_of RouteToAccount = AccountAgent"
| "responder_of RouteToTransaction = TransactionHistoryAgent"
| "responder_of RouteToPayment = PaymentAgent"

text \<open>
  Dispatch as the specification words it, to compare the code with: the selected
  responder's capability \<^verbatim>\<open>handle(utterance, dialogue_state)\<close> is invoked with the
  caller's original utterance and the current dialogue state, and gives a text (or
  fails) and the updated dialogue state. \<open>spec_handle\<close> is that capability.
  \<open>spec_dispatch\<close> follows a run of the router in which every selection of a responder
  is answered by \<open>spec_handle\<close> on the utterance \<open>original\<close>, whatever message the router
  wrote for the routing tool; \<open>spec_dispatch_stream\<close> does the same for a streamed run.
  They act on the dialogue state alone.
\<close>

definition spec_handle :: "env \<Rightarrow> responder \<Rightarrow> string \<Rightarrow> thread \<Rightarrow> thread \<times> (exn + string)" where
  "spec_handle env r utterance dialogue_state =
     (case sub_agent_of env r of
        Inl e \<Rightarrow> (dialogue_state, Inl e)
      | Inr af_agent \<Rightarrow> sub_run af_agent utterance dialogue_state)"

primrec spec_dispatch :: "env \<Rightarrow> string \<Rightarrow> agent_run \<Rightarrow> thread \<Rightarrow> thread \<times> (exn + string \<times> thread)" where
  "spec_dispatch env original (Return response_text th) = (\<lambda>d. (d, Inr (response_text, th)))"
| "spec_dispatch env original (Raise e) = (\<lambda>d. (d, Inl e))"
| "spec_dispatch env original (Invoke t generated k) =
     (\<lambda>d. case spec_handle env (responder_of t) original d of
            (d', outcome) \<Rightarrow> spec_dispatch env original (k outcome) d')"

primrec spec_dispatch_stream :: "env \<Rightarrow> string \<Rightarrow> agent_stream \<Rightarrow> thread \<Rightarrow> thread \<times> element list \<times> (exn + thread)" where
  "spec_dispatch_stream env original (SEnd th) = (\<lambda>d. (d, [], Inr th))"
| "spec_dispatch_stream env original (SRaise e) = (\<lambda>d. (d, [], Inl e))"
| "spec_dispatch_stream env original (SChunk c rest) =
     (\<lambda>d. case spec_dispatch_stream env original rest d of
            (d', ys, res) \<Rightarrow> (d', yield_chunk c @ ys, res))"
| "spec_dispatch_stream env original (SInvoke t generated k) =
     (\<lambda>d. case spec_handle env (responder_of t) original d of
            (d', outcome) \<Rightarrow> spec_dispatch_stream env original (k outcome) d')"

text \<open>
  What the tools of one agent run do to the state: the stores and \<^verbatim>\<open>user_message\<close> are
  as before, responders were called with \<^verbatim>\<open>user_message\<close>, and \<^verbatim>\<open>current_thread\<close> is
  what these calls made of it.
\<close>

definition tools_effect :: "env \<Rightarrow> state \<Rightarrow> state \<Rightarrow> bool" where
  "tools_effect env st st' \<longleftrightarrow>
     thread_store st' = thread_store st \<and>
     supervisor_thread_store st' = supervisor_thread_store st \<and>
     user_message st' = user_message st \<and>
     (\<exists>calls. handled st' = handled st @ calls \<and>
        list_all (\<lambda>c. snd c = user_message st) calls \<and>
        current_thread st' = replay env calls (current_thread st))"


text \<open>An intermediate element of a stream: not final, no session id.\<close>

definition relayed :: "element \<Rightarrow> bool" where
  "relayed el \<longleftrightarrow> \<not> fst (snd el) \<and> snd (snd el) = None"

section \<open>Example collaborators\<close>

text \<open>
  A supervisor that routes every request to the account agent with a message of its own
  and answers with what the tool returned; an account agent that answers with a balance.
\<close>

definition example_state :: state where
  "example_state =
     \<lparr>thread_store = Map.empty, supervisor_thread_store = Map.empty,
      current_thread = [], user_message = [], handled = []\<rparr>"

definition example_account :: sub_chat_agent where
  "example_account =
     \<lparr>sub_run = (\<lambda>utterance th.
         (th @ [(User, utterance), (Assistant, ''Your balance is 100'')],
          Inr ''Your balance is 100'')),
      sub_run_stream = None\<rparr>"

definition example_supervisor :: chat_agent where
  "example_supervisor =
     \<lparr>run = (\<lambda>m th. Invoke RouteToAccount ''The customer asks for the account balance''
         (\<lambda>outcome. case outcome of
            Inl e \<Rightarrow> Raise e
          | Inr t \<Rightarrow> Return t (th @ [(User, m), (ToolResult, t), (Assistant, t)]))),
      run_stream = Some (\<lambda>m th. SInvoke RouteToAccount ''The customer asks for the account balance''
         (\<lambda>outcome. case outcome of
            Inl e \<Rightarrow> SRaise e
          | Inr t \<Rightarrow> SChunk (Some t) (SEnd (th @ [(User, m), (ToolResult, t), (Assistant, t)]))))\<rparr>"

definition example_env :: env where
  "example_env =
     \<lparr>uuid4 = ''id-1'', create_agent = Inr example_supervisor,
      account_agent = Inr example_account,
      transaction_agent = Inl (Exception ''transaction server down''),
      payment_agent = Inl (Exception ''payment server down'')\<rparr>"

text \<open>A supervisor that answers by itself, with the text given, and calls no tool.\<close>

definition declining_supervisor :: "string \<Rightarrow> chat_agent" where
  "declining_supervisor answer =
     \<lparr>run = (\<lambda>m th. Return answer (th @ [(User, m), (Assistant, answer)])),
      run_stream = Some (\<lambda>m th. SChunk (Some answer) (SEnd (th @ [(User, m), (Assistant, answer)])))\<rparr>"

text \<open>A supervisor whose model call fails, in a stream after one chunk.\<close>

definition failing_supervisor :: chat_agent where
  "failing_supervisor =
     \<lparr>run = (\<lambda>m th. Raise (Exception ''model call failed'')),
      run_stream = Some (\<lambda>m th. SChunk (Some ''Your bal'') (SRaise (Exception ''connection lost'')))\<rparr>"

text \<open>A supervisor whose stream is cancelled after one chunk.\<close>

definition cancelled_supervisor :: chat_agent where
  "cancelled_supervisor =
     \<lparr>run = (\<lambda>m th. Raise (BaseException ''CancelledError'')),
      run_stream = Some (\<lambda>m th. SChunk (Some ''Your bal'') (SRaise (BaseException ''CancelledError'')))\<rparr>"

text \<open>A state in which only the dialogue lane of a session is present.\<close>

definition one_lane_state :: state where
  "one_lane_state = example_state\<lparr>thread_store := [''id-9'' \<mapsto> []]\<rparr>"

text \<open>
  A stream in which the supervisor answers by itself: no tool is invoked and the stream
  ends without raising. The result is the elements yielded for its chunks and the thread
  at the end.
\<close>

primrec answered_alone :: "agent_stream \<Rightarrow> (element list \<times> thread) option" where
  "answered_alone (SEnd th) = Some ([], th)"
| "answered_alone (SRaise e) = None"
| "answered_alone (SChunk c rest) =
     (case answered_alone rest of
        None \<Rightarrow> None
      | Some (ys, th) \<Rightarrow> Some (yield_chunk c @ ys, th))"
| "answered_alone (SInvoke t generated k) = None"

text \<open>A state with one stored session, both lanes present.\<close>

definition session_state :: state where
  "session_state =
     example_state
       \<lparr>thread_store := [''id-1'' \<mapsto> [(User, ''Hello''), (Assistant, ''Hello, how can I help?'')]],
        supervisor_thread_store := [''id-1'' \<mapsto> [(User, ''Hello'')]]\<rparr>"

section \<open>What the tools and the session lookup do to the state\<close>


lemma replay_append: "replay env (xs @ ys) th = replay env ys (replay env xs th)"
  by (induction xs arbitrary: th) (auto split: sum.splits)

lemma tools_effect_refl: "tools_effect env st st"
  unfolding tools_effect_def by (auto intro: exI[of _ "[]"])

lemma tools_effect_trans:
  assumes "tools_effect env st st'" and "tools_effect env st' st''"
  shows "tools_effect env st st''"
proof -
  from assms(1) obtain xs where xs: "handled st' = handled st @ xs"
    "list_all (\<lambda>c. snd c = user_message st) xs"
    "current_thread st' = replay env xs (current_thread st)"
    unfolding tools_effect_def by blast
  from assms(2) obtain ys where ys: "handled st'' = handled st' @ ys"
    "list_all (\<lambda>c. snd c = user_message st') ys"
    "current_thread st'' = replay env ys (current_thread st')"
    unfolding tools_effect_def by blast
  have um: "user_message st' = user_message st"
    using assms(1) unfolding tools_effect_def by simp
  have "handled st'' = handled st @ (xs @ ys)" using xs ys by simp
  moreover have "list_all (\<lambda>c. snd c = user_message st) (xs @ ys)" using xs ys um by simp
  moreover have "current_thread st'' = replay env (xs @ ys) (current_thread st)"
    using xs ys by (simp add: replay_append)
  ultimately have "\<exists>calls. handled st'' = handled st @ calls \<and>
        list_all (\<lambda>c. snd c = user_message st) calls \<and>
        current_thread st'' = replay env calls (current_thread st)" by blast
  then show ?thesis using assms unfolding tools_effect_def by simp
qed

lemma route_to_effect:
  assumes "built = sub_agent_of env r"
  shows "tools_effect env st (fst (route_to r built generated st))"
proof (cases built)
  case (Inl e)
  then show ?thesis by (simp add: route_to_def tools_effect_refl)
next
  case (Inr af)
  obtain th res where run: "sub_run af (user_message st) (current_thread st) = (th, res)"
    by (cases "sub_run af (user_message st) (current_thread st)")
  have "replay env [(r, user_message st)] (current_thread st) = th"
    using Inr assms run by simp
  then show ?thesis
    using Inr run unfolding tools_effect_def route_to_def responder_run_def
    by (auto intro!: exI[of _ "[(r, user_message st)]"])
qed

lemma call_tool_effect: "tools_effect env st (fst (call_tool env t generated st))"
  by (cases t)
     (simp_all add: route_to_account_agent_def route_to_transaction_agent_def
        route_to_payment_agent_def route_to_effect)

lemma exec_run_effect: "tools_effect env st (fst (exec_run env t st))"
proof (induction t arbitrary: st)
  case (Return x1 x2)
  then show ?case by (simp add: tools_effect_refl)
next
  case (Raise x)
  then show ?case by (simp add: tools_effect_refl)
next
  case (Invoke t g k)
  obtain st' out where ct: "call_tool env t g st = (st', out)"
    by (cases "call_tool env t g st")
  have a: "tools_effect env st st'" using call_tool_effect[of env st t g] ct by simp
  have b: "tools_effect env st' (fst (exec_run env (k out) st'))"
    using Invoke.IH[of "k out" st'] by simp
  show ?case using tools_effect_trans[OF a b] ct by simp
qed

lemma yield_chunk_relayed: "list_all relayed (yield_chunk c)"
  by (cases c) (simp_all add: relayed_def)

lemma exec_stream_effect:
  "tools_effect env st (fst (exec_stream env s st)) \<and>
   list_all relayed (fst (snd (exec_stream env s st)))"
proof (induction s arbitrary: st)
  case (SEnd x)
  then show ?case by (simp add: tools_effect_refl)
next
  case (SRaise x)
  then show ?case by (simp add: tools_effect_refl)
next
  case (SChunk c rest)
  obtain st' ys res where ex: "exec_stream env rest st = (st', ys, res)"
    by (cases "exec_stream env rest st")
  then show ?case using SChunk.IH[of st]
    by (simp add: yield_chunk_relayed)
next
  case (SInvoke t g k)
  obtain st' out where ct: "call_tool env t g st = (st', out)"
    by (cases "call_tool env t g st")
  have a: "tools_effect env st st'" using call_tool_effect[of env st t g] ct by simp
  have b: "tools_effect env st' (fst (exec_stream env (k out) st'))"
    and c: "list_all relayed (fst (snd (exec_stream env (k out) st')))"
    using SInvoke.IH[of "k out" st'] by simp_all
  show ?case using tools_effect_trans[OF a b] c ct by simp
qed


lemma resume_thread_new:
  "resume_thread env st None =
     (st\<lparr>current_thread := [],
         thread_store := (thread_store st)(uuid4 env \<mapsto> []),
         supervisor_thread_store := (supervisor_thread_store st)(uuid4 env \<mapsto> [])\<rparr>,
      Inr (uuid4 env, []))"
  by (simp add: resume_thread_def get_new_thread_def serialize_def Let_def)

lemma resume_thread_found:
  "thread_store st t = Some d \<Longrightarrow> supervisor_thread_store st t = Some r \<Longrightarrow>
   resume_thread env st (Some t) = (st\<lparr>current_thread := d\<rparr>, Inr (t, r))"
  by (simp add: resume_thread_def update_from_thread_state_def Let_def)

lemma resume_thread_missing:
  "thread_store st t = None \<or> supervisor_thread_store st t = None \<Longrightarrow>
   resume_thread env st (Some t) = (st, Inl (not_found t))"
  by (auto simp: resume_thread_def Let_def split: option.splits)

lemma resume_thread_cases:
  obtains (minted) "thread_id = None"
      "resume_thread env st thread_id =
        (st\<lparr>current_thread := [],
            thread_store := (thread_store st)(uuid4 env \<mapsto> []),
            supervisor_thread_store := (supervisor_thread_store st)(uuid4 env \<mapsto> [])\<rparr>,
         Inr (uuid4 env, []))"
  | (found) t d r where "thread_id = Some t" "thread_store st t = Some d"
      "supervisor_thread_store st t = Some r"
      "resume_thread env st thread_id = (st\<lparr>current_thread := d\<rparr>, Inr (t, r))"
  | (missing) t where "thread_id = Some t"
      "thread_store st t = None \<or> supervisor_thread_store st t = None"
      "resume_thread env st thread_id = (st, Inl (not_found t))"
proof (cases thread_id)
  case None
  then show ?thesis using minted resume_thread_new by simp
next
  case (Some t)
  show ?thesis
  proof (cases "thread_store st t = None \<or> supervisor_thread_store st t = None")
    case True
    then show ?thesis using missing Some resume_thread_missing by simp
  next
    case False
    then obtain d r where "thread_store st t = Some d" "supervisor_thread_store st t = Some r"
      by auto
    then show ?thesis using found Some resume_thread_found by simp
  qed
qed

lemma resume_thread_keeps:
  "handled (fst (resume_thread env st thread_id)) = handled st \<and>
   user_message (fst (resume_thread env st thread_id)) = user_message st"
  by (cases rule: resume_thread_cases[of thread_id env st]) simp_all

lemma resume_thread_coupled:
  "coupled st \<Longrightarrow> coupled (fst (resume_thread env st thread_id))"
  by (cases rule: resume_thread_cases[of thread_id env st]) (simp_all add: coupled_def)

lemma tools_effect_coupled: "tools_effect env st st' \<Longrightarrow> coupled st \<Longrightarrow> coupled st'"
  by (simp add: tools_effect_def coupled_def)

lemma tools_effect_calls:
  assumes "tools_effect env (st\<lparr>user_message := user_msg\<rparr>) st'"
  shows "\<exists>calls. handled st' = handled st @ calls \<and> list_all (\<lambda>c. snd c = user_msg) calls"
  using assms unfolding tools_effect_def by auto

lemma store_both_coupled:
  "coupled st \<Longrightarrow>
   coupled (st\<lparr>thread_store := (thread_store st)(k \<mapsto> a),
              supervisor_thread_store := (supervisor_thread_store st)(k \<mapsto> b)\<rparr>)"
  by (simp add: coupled_def)

text \<open>The state after a turn, through the stages of the function.\<close>

lemma processMessage_state:
  "\<exists>st1 st2 k a b.
     st1 = fst (resume_thread env st thread_id) \<and>
     tools_effect env (st1\<lparr>user_message := user_msg\<rparr>) st2 \<and>
     fst (processMessage env st user_msg thread_id) \<in>
       {st, st1, st2,
        st2\<lparr>thread_store := (thread_store st2)(k \<mapsto> a),
            supervisor_thread_store := (supervisor_thread_store st2)(k \<mapsto> b)\<rparr>}"
proof (cases "create_agent env")
  case (Inl e)
  then show ?thesis
    using tools_effect_refl by (fastforce simp: processMessage_def)
next
  case (Inr agent)
  note ag = Inr
  obtain st1 res where rt: "resume_thread env st thread_id = (st1, res)"
    by (cases "resume_thread env st thread_id")
  show ?thesis
  proof (cases res)
    case (Inl e)
    then show ?thesis using ag rt tools_effect_refl
      by (fastforce simp: processMessage_def)
  next
    case (Inr pr)
    note res = Inr
    obtain pid sup where pr: "pr = (pid, sup)" by (cases pr)
    obtain st2 out where ex: "exec_run env (run agent user_msg sup) (st1\<lparr>user_message := user_msg\<rparr>) = (st2, out)"
      by (cases "exec_run env (run agent user_msg sup) (st1\<lparr>user_message := user_msg\<rparr>)")
    have eff: "tools_effect env (st1\<lparr>user_message := user_msg\<rparr>) st2"
      using exec_run_effect[of env "st1\<lparr>user_message := user_msg\<rparr>" "run agent user_msg sup"] ex
      by simp
    show ?thesis
    proof (cases out)
      case (Inl e)
      have "fst (processMessage env st user_msg thread_id) = st2"
        using ag rt res pr ex Inl
        by (simp add: processMessage_def)
      then show ?thesis using eff rt by auto
    next
      case (Inr tt)
      obtain rtext th where tt: "tt = (rtext, th)" by (cases tt)
      have "fst (processMessage env st user_msg thread_id) =
              st2\<lparr>thread_store := (thread_store st2)(pid \<mapsto> serialize (current_thread st2)),
                  supervisor_thread_store := (supervisor_thread_store st2)(pid \<mapsto> serialize th)\<rparr>"
        using ag rt res pr ex Inr tt
        by (simp add: processMessage_def)
      then show ?thesis using eff rt by auto
    qed
  qed
qed


lemma processMessageStream_state:
  "\<exists>st1 st2 k a b.
     st1 = fst (resume_thread env st thread_id) \<and>
     tools_effect env (st1\<lparr>user_message := user_msg\<rparr>) st2 \<and>
     fst (processMessageStream env st user_msg thread_id) \<in>
       {st, st1, st2,
        st2\<lparr>thread_store := (thread_store st2)(k \<mapsto> a),
            supervisor_thread_store := (supervisor_thread_store st2)(k \<mapsto> b)\<rparr>}"
proof (cases "create_agent env")
  case (Inl e)
  then show ?thesis
    using tools_effect_refl by (fastforce simp: processMessageStream_def outer_handler_def)
next
  case (Inr agent)
  note ag = Inr
  obtain st1 res where rt: "resume_thread env st thread_id = (st1, res)"
    by (cases "resume_thread env st thread_id")
  show ?thesis
  proof (cases res)
    case (Inl e)
    then show ?thesis using ag rt tools_effect_refl
      by (fastforce simp: processMessageStream_def outer_handler_def)
  next
    case (Inr pr)
    note res = Inr
    obtain pid sup where pr: "pr = (pid, sup)" by (cases pr)
    show ?thesis
    proof (cases "run_stream agent")
      case None
      have "fst (processMessageStream env st user_msg thread_id) = st1\<lparr>user_message := user_msg\<rparr>"
        using ag rt res pr None by (simp add: processMessageStream_def outer_handler_def)
      then show ?thesis using rt tools_effect_refl[of env "st1\<lparr>user_message := user_msg\<rparr>"]
        by auto
    next
      case (Some rs)
      obtain st2 ys out where ex:
        "exec_stream env (rs user_msg sup) (st1\<lparr>user_message := user_msg\<rparr>) = (st2, ys, out)"
        by (cases "exec_stream env (rs user_msg sup) (st1\<lparr>user_message := user_msg\<rparr>)")
      have eff: "tools_effect env (st1\<lparr>user_message := user_msg\<rparr>) st2"
        using exec_stream_effect[of env "st1\<lparr>user_message := user_msg\<rparr>" "rs user_msg sup"] ex
        by simp
      show ?thesis
      proof (cases out)
        case (Inl e)
        have "fst (processMessageStream env st user_msg thread_id) = st2"
          using ag rt res pr Some ex Inl by (simp add: processMessageStream_def outer_handler_def)
        then show ?thesis using eff rt by auto
      next
        case (Inr th)
        have "fst (processMessageStream env st user_msg thread_id) =
                st2\<lparr>thread_store := (thread_store st2)(pid \<mapsto> serialize (current_thread st2)),
                    supervisor_thread_store := (supervisor_thread_store st2)(pid \<mapsto> serialize th)\<rparr>"
          using ag rt res pr Some ex Inr by (simp add: processMessageStream_def outer_handler_def)
        then show ?thesis using eff rt by auto
      qed
    qed
  qed
qed

lemma stages_calls:
  assumes "st1 = fst (resume_thread env st thread_id)"
    and "tools_effect env (st1\<lparr>user_message := user_msg\<rparr>) st2"
    and "st' \<in> {st, st1, st2,
        st2\<lparr>thread_store := (thread_store st2)(k \<mapsto> a),
            supervisor_thread_store := (supervisor_thread_store st2)(k \<mapsto> b)\<rparr>}"
  shows "\<exists>calls. handled st' = handled st @ calls \<and> list_all (\<lambda>c. snd c = user_msg) calls"
proof -
  have h1: "handled st1 = handled st" using assms(1) resume_thread_keeps by simp
  obtain calls where c: "handled st2 = handled st @ calls" "list_all (\<lambda>c. snd c = user_msg) calls"
    using tools_effect_calls[OF assms(2)] h1 by auto
  have "handled st' = handled st @ [] \<or> handled st' = handled st @ calls"
    using assms(3) h1 c by auto
  then show ?thesis
  proof
    assume "handled st' = handled st @ []"
    then have "handled st' = handled st @ [] \<and> list_all (\<lambda>c. snd c = user_msg) []" by simp
    then show ?thesis by blast
  next
    assume "handled st' = handled st @ calls"
    then show ?thesis using c(2) by blast
  qed
qed

lemma stages_coupled:
  assumes "st1 = fst (resume_thread env st thread_id)"
    and "tools_effect env (st1\<lparr>user_message := user_msg\<rparr>) st2"
    and "st' \<in> {st, st1, st2,
        st2\<lparr>thread_store := (thread_store st2)(k \<mapsto> a),
            supervisor_thread_store := (supervisor_thread_store st2)(k \<mapsto> b)\<rparr>}"
    and "coupled st"
  shows "coupled st'"
proof -
  have c1: "coupled st1" using assms(1,4) resume_thread_coupled by simp
  then have "coupled (st1\<lparr>user_message := user_msg\<rparr>)" by (simp add: coupled_def)
  then have c2: "coupled st2" using tools_effect_coupled[OF assms(2)] by simp
  show ?thesis using assms(3,4) c1 c2 store_both_coupled[OF c2] by auto
qed

lemma run_turn_coupled: "coupled st \<Longrightarrow> coupled (run_turn st t)"
proof (cases t)
  case (Turn env m tid)
  assume "coupled st"
  then show ?thesis using processMessage_state[of env st tid m] stages_coupled Turn
    by (metis run_turn.simps(1))
next
  case (StreamTurn env m tid)
  assume "coupled st"
  then show ?thesis using processMessageStream_state[of env st tid m] stages_coupled StreamTurn
    by (metis run_turn.simps(2))
qed

lemma run_turns_coupled: "coupled st \<Longrightarrow> coupled (run_turns turns st)"
  unfolding run_turns_def by (induction turns arbitrary: st) (simp_all add: run_turn_coupled)

lemma processMessage_missing:
  assumes "create_agent env = Inr agent"
    and "thread_store st t = None \<or> supervisor_thread_store st t = None"
  shows "processMessage env st user_msg (Some t) = (st, Inl (not_found t))"
  using assms resume_thread_missing[OF assms(2), of env] by (simp add: processMessage_def)

lemma processMessageStream_missing:
  assumes "create_agent env = Inr agent"
    and "thread_store st t = None \<or> supervisor_thread_store st t = None"
  shows "processMessageStream env st user_msg (Some t) =
           (st, [(apology (not_found t), True, Some t)], None)"
  using assms resume_thread_missing[OF assms(2), of env]
  by (simp add: processMessageStream_def outer_handler_def not_found_def)

lemmas turn_defs =
  processMessage_def processMessageStream_def outer_handler_def resume_thread_def get_new_thread_def
  serialize_def update_from_thread_state_def route_to_account_agent_def
  route_to_transaction_agent_def route_to_payment_agent_def route_to_def responder_run_def Let_def

lemma resume_thread_lanes:
  assumes "lanes st thread_id = Some (d, r)"
  shows "\<exists>st1. resume_thread env st thread_id = (st1, Inr (resolved env thread_id, r)) \<and>
           current_thread st1 = d \<and> handled st1 = handled st \<and>
           user_message st1 = user_message st \<and>
           lanes st1 (Some (resolved env thread_id)) = Some (d, r)"
proof (cases thread_id)
  case None
  then show ?thesis using assms by (simp add: resume_thread_new)
next
  case (Some t)
  then have "thread_store st t = Some d" "supervisor_thread_store st t = Some r"
    using assms by (auto split: option.splits)
  then show ?thesis using Some by (simp add: resume_thread_found)
qed

lemma processMessage_returns:
  assumes "create_agent env = Inr agent"
    and "resume_thread env st thread_id = (st1, Inr (pid, sthread))"
    and "exec_run env (run agent user_msg sthread) (st1\<lparr>user_message := user_msg\<rparr>) =
           (st2, Inr (response_text, th))"
  shows "processMessage env st user_msg thread_id =
           (st2\<lparr>thread_store := (thread_store st2)(pid \<mapsto> current_thread st2),
               supervisor_thread_store := (supervisor_thread_store st2)(pid \<mapsto> th)\<rparr>,
            Inr (response_text, pid))"
  using assms by (simp add: processMessage_def serialize_def)

lemma processMessage_raises:
  assumes "create_agent env = Inr agent"
    and "resume_thread env st thread_id = (st1, Inr (pid, sthread))"
    and "exec_run env (run agent user_msg sthread) (st1\<lparr>user_message := user_msg\<rparr>) = (st2, Inl e)"
  shows "processMessage env st user_msg thread_id = (st2, Inl e)"
  using assms by (simp add: processMessage_def)

lemma processMessageStream_unsupported:
  assumes "create_agent env = Inr agent"
    and "resume_thread env st thread_id = (st1, Inr (pid, sthread))"
    and "run_stream agent = None"
  shows "processMessageStream env st user_msg thread_id =
           (st1\<lparr>user_message := user_msg\<rparr>, [(streaming_unsupported, True, Some pid)], None)"
  using assms by (simp add: processMessageStream_def)

lemma processMessageStream_ends:
  assumes "create_agent env = Inr agent"
    and "resume_thread env st thread_id = (st1, Inr (pid, sthread))"
    and "run_stream agent = Some rs"
    and "exec_stream env (rs user_msg sthread) (st1\<lparr>user_message := user_msg\<rparr>) = (st3, chunks, Inr th)"
  shows "processMessageStream env st user_msg thread_id =
           (st3\<lparr>thread_store := (thread_store st3)(pid \<mapsto> current_thread st3),
               supervisor_thread_store := (supervisor_thread_store st3)(pid \<mapsto> th)\<rparr>,
            chunks @ [([], True, Some pid)], None)"
  using assms by (simp add: processMessageStream_def serialize_def)

lemma processMessageStream_raises:
  assumes "create_agent env = Inr agent"
    and "resume_thread env st thread_id = (st1, Inr (pid, sthread))"
    and "run_stream agent = Some rs"
    and "exec_stream env (rs user_msg sthread) (st1\<lparr>user_message := user_msg\<rparr>) = (st3, chunks, Inl e)"
  shows "processMessageStream env st user_msg thread_id =
           (if is_Exception e
            then (st3, chunks @ [(streaming_failed e, True, Some pid)], None)
            else (st3, chunks, Some e))"
  using assms by (simp add: processMessageStream_def)

lemma answered_alone_exec:
  "answered_alone s = Some (ys, th) \<Longrightarrow> exec_stream env s st = (st, ys, Inr th)"
  by (induction s arbitrary: ys) (auto split: option.splits)

text \<open>The dialogue lane and the routing lane after a turn that stored them.\<close>

lemma stored_lanes:
  assumes "tools_effect env (st1\<lparr>user_message := user_msg\<rparr>) st2"
    and "handled st1 = handled st" and "current_thread st1 = d"
    and "st' = st2\<lparr>thread_store := (thread_store st2)(pid \<mapsto> current_thread st2),
               supervisor_thread_store := (supervisor_thread_store st2)(pid \<mapsto> th)\<rparr>"
  shows "\<exists>calls. handled st' = handled st @ calls \<and>
           list_all (\<lambda>c. snd c = user_msg) calls \<and>
           thread_store st' pid = Some (replay env calls d) \<and>
           supervisor_thread_store st' pid = Some th"
proof -
  obtain calls where "handled st2 = handled st @ calls"
    "list_all (\<lambda>c. snd c = user_msg) calls" "current_thread st2 = replay env calls d"
    using assms(1,2,3) unfolding tools_effect_def by auto
  then show ?thesis using assms(4) by auto
qed

text \<open>
  The routing tools, and with them the runs of the agent, do to the dialogue thread what
  the dispatch of the specification does with the utterance in \<^verbatim>\<open>self.user_message\<close>.
\<close>

lemma route_to_spec:
  assumes "built = sub_agent_of env r"
  shows "(current_thread (fst (route_to r built generated st)), snd (route_to r built generated st)) =
           spec_handle env r (user_message st) (current_thread st)"
  using assms
  by (cases "sub_agent_of env r")
     (simp_all add: route_to_def responder_run_def spec_handle_def split: prod.splits)

lemma call_tool_spec:
  "(current_thread (fst (call_tool env t generated st)), snd (call_tool env t generated st)) =
     spec_handle env (responder_of t) (user_message st) (current_thread st)"
  by (cases t)
     (simp_all add: route_to_account_agent_def route_to_transaction_agent_def
        route_to_payment_agent_def route_to_spec)

lemma call_tool_user_message:
  "user_message (fst (call_tool env t generated st)) = user_message st"
  using call_tool_effect[of env st t generated] by (simp add: tools_effect_def)

lemma exec_run_spec:
  "(current_thread (fst (exec_run env tree st)), snd (exec_run env tree st)) =
     spec_dispatch env (user_message st) tree (current_thread st)"
proof (induction tree arbitrary: st)
  case (Return response_text th)
  show ?case by simp
next
  case (Raise e)
  show ?case by simp
next
  case (Invoke t generated k)
  obtain st' outcome where ct: "call_tool env t generated st = (st', outcome)"
    by (cases "call_tool env t generated st")
  have sp: "spec_handle env (responder_of t) (user_message st) (current_thread st) =
              (current_thread st', outcome)"
    using call_tool_spec[of env t generated st] ct by simp
  have um: "user_message st' = user_message st"
    using call_tool_user_message[of env t generated st] ct by simp
  show ?case using Invoke.IH[of "k outcome" st'] ct sp um by simp
qed

lemma exec_stream_spec:
  "(current_thread (fst (exec_stream env s st)), snd (exec_stream env s st)) =
     spec_dispatch_stream env (user_message st) s (current_thread st)"
proof (induction s arbitrary: st)
  case (SEnd th)
  show ?case by simp
next
  case (SRaise e)
  show ?case by simp
next
  case (SChunk c rest)
  obtain st' ys res where ex: "exec_stream env rest st = (st', ys, res)"
    by (cases "exec_stream env rest st")
  show ?case using SChunk.IH[of st] ex by (auto split: prod.splits)
next
  case (SInvoke t generated k)
  obtain st' outcome where ct: "call_tool env t generated st = (st', outcome)"
    by (cases "call_tool env t generated st")
  have sp: "spec_handle env (responder_of t) (user_message st) (current_thread st) =
              (current_thread st', outcome)"
    using call_tool_spec[of env t generated st] ct by simp
  have um: "user_message st' = user_message st"
    using call_tool_user_message[of env t generated st] ct by simp
  show ?case using SInvoke.IH[of "k outcome" st'] ct sp um by simp
qed



section \<open>Properties of the turns\<close>

lemmas example_defs =
  example_state_def example_account_def example_supervisor_def example_env_def
  declining_supervisor_def failing_supervisor_def cancelled_supervisor_def one_lane_state_def

text \<open>
  C1. In every turn, streaming or not, each responder the router selects is run on the
  caller's utterance exactly as the caller gave it, whatever message the router wrote
  when it invoked the routing tool: the outcome of the turn and the dialogue state it
  leaves are those of the specification's dispatch on \<open>user_msg\<close>, and the calls the
  responders received during the turn all carry \<open>user_msg\<close>.
\<close>

theorem original_utterance_forwarded:
  assumes "lanes st thread_id = Some (d, r)"
    and "create_agent env = Inr agent"
  shows "(case spec_dispatch env user_msg (run agent user_msg r) d of
            (d', Inl e) \<Rightarrow>
              snd (processMessage env st user_msg thread_id) = Inl e \<and>
              current_thread (fst (processMessage env st user_msg thread_id)) = d'
          | (d', Inr (response_text, r')) \<Rightarrow>
              snd (processMessage env st user_msg thread_id) =
                Inr (response_text, resolved env thread_id) \<and>
              lanes (fst (processMessage env st user_msg thread_id))
                (Some (resolved env thread_id)) = Some (d', r')) \<and>
         (run_stream agent = Some rs \<longrightarrow>
            (case spec_dispatch_stream env user_msg (rs user_msg r) d of
               (d', ys, Inl e) \<Rightarrow>
                 snd (processMessageStream env st user_msg thread_id) =
                   (if is_Exception e
                    then (ys @ [(streaming_failed e, True, Some (resolved env thread_id))], None)
                    else (ys, Some e)) \<and>
                 current_thread (fst (processMessageStream env st user_msg thread_id)) = d'
             | (d', ys, Inr r') \<Rightarrow>
                 snd (processMessageStream env st user_msg thread_id) =
                   (ys @ [([], True, Some (resolved env thread_id))], None) \<and>
                 lanes (fst (processMessageStream env st user_msg thread_id))
                   (Some (resolved env thread_id)) = Some (d', r'))) \<and>
         (\<exists>calls. handled (fst (processMessage env st user_msg thread_id)) = handled st @ calls \<and>
            list_all (\<lambda>c. snd c = user_msg) calls) \<and>
         (\<exists>calls. handled (fst (processMessageStream env st user_msg thread_id)) = handled st @ calls \<and>
            list_all (\<lambda>c. snd c = user_msg) calls)"
proof -
  obtain st1 where rt: "resume_thread env st thread_id = (st1, Inr (resolved env thread_id, r))"
    and st1: "current_thread st1 = d"
    using resume_thread_lanes[OF assms(1), of env] by blast
  let ?s = "st1\<lparr>user_message := user_msg\<rparr>"
  have A: "case spec_dispatch env user_msg (run agent user_msg r) d of
            (d', Inl e) \<Rightarrow>
              snd (processMessage env st user_msg thread_id) = Inl e \<and>
              current_thread (fst (processMessage env st user_msg thread_id)) = d'
          | (d', Inr (response_text, r')) \<Rightarrow>
              snd (processMessage env st user_msg thread_id) =
                Inr (response_text, resolved env thread_id) \<and>
              lanes (fst (processMessage env st user_msg thread_id))
                (Some (resolved env thread_id)) = Some (d', r')"
  proof -
    obtain st2 out where ex: "exec_run env (run agent user_msg r) ?s = (st2, out)"
      by (cases "exec_run env (run agent user_msg r) ?s")
    have sp: "spec_dispatch env user_msg (run agent user_msg r) d = (current_thread st2, out)"
      using exec_run_spec[of env "run agent user_msg r" ?s] ex st1 by simp
    show ?thesis
    proof (cases out)
      case (Inl e)
      then show ?thesis using processMessage_raises[OF assms(2) rt, of user_msg st2 e] ex sp by simp
    next
      case (Inr tr)
      obtain response_text r' where tr: "tr = (response_text, r')" by (cases tr)
      show ?thesis
        using processMessage_returns[OF assms(2) rt, of user_msg st2 response_text r'] ex sp Inr tr
        by simp
    qed
  qed
  have B: "run_stream agent = Some rs \<longrightarrow>
            (case spec_dispatch_stream env user_msg (rs user_msg r) d of
               (d', ys, Inl e) \<Rightarrow>
                 snd (processMessageStream env st user_msg thread_id) =
                   (if is_Exception e
                    then (ys @ [(streaming_failed e, True, Some (resolved env thread_id))], None)
                    else (ys, Some e)) \<and>
                 current_thread (fst (processMessageStream env st user_msg thread_id)) = d'
             | (d', ys, Inr r') \<Rightarrow>
                 snd (processMessageStream env st user_msg thread_id) =
                   (ys @ [([], True, Some (resolved env thread_id))], None) \<and>
                 lanes (fst (processMessageStream env st user_msg thread_id))
                   (Some (resolved env thread_id)) = Some (d', r'))"
  proof
    assume rs: "run_stream agent = Some rs"
    obtain st3 ys out where ex: "exec_stream env (rs user_msg r) ?s = (st3, ys, out)"
      by (cases "exec_stream env (rs user_msg r) ?s")
    have sp: "spec_dispatch_stream env user_msg (rs user_msg r) d = (current_thread st3, ys, out)"
      using exec_stream_spec[of env "rs user_msg r" ?s] ex st1 by simp
    show "case spec_dispatch_stream env user_msg (rs user_msg r) d of
               (d', ys, Inl e) \<Rightarrow>
                 snd (processMessageStream env st user_msg thread_id) =
                   (if is_Exception e
                    then (ys @ [(streaming_failed e, True, Some (resolved env thread_id))], None)
                    else (ys, Some e)) \<and>
                 current_thread (fst (processMessageStream env st user_msg thread_id)) = d'
             | (d', ys, Inr r') \<Rightarrow>
                 snd (processMessageStream env st user_msg thread_id) =
                   (ys @ [([], True, Some (resolved env thread_id))], None) \<and>
                 lanes (fst (processMessageStream env st user_msg thread_id))
                   (Some (resolved env thread_id)) = Some (d', r')"
    proof (cases out)
      case (Inl e)
      then show ?thesis
        using processMessageStream_raises[OF assms(2) rt rs, of user_msg st3 ys e] ex sp by simp
    next
      case (Inr r')
      then show ?thesis
        using processMessageStream_ends[OF assms(2) rt rs, of user_msg st3 ys r'] ex sp by simp
    qed
  qed
  have C: "\<exists>calls. handled (fst (processMessage env st user_msg thread_id)) = handled st @ calls \<and>
      list_all (\<lambda>c. snd c = user_msg) calls"
    using processMessage_state[of env st thread_id user_msg] stages_calls by metis
  have D: "\<exists>calls. handled (fst (processMessageStream env st user_msg thread_id)) = handled st @ calls \<and>
      list_all (\<lambda>c. snd c = user_msg) calls"
    using processMessageStream_state[of env st thread_id user_msg] stages_calls by metis
  show ?thesis using A B C D by blast
qed

theorem original_utterance_forwarded_witness:
  "snd (processMessage example_env example_state ''What is my balance?'' None) =
     Inr (''Your balance is 100'', ''id-1'') \<and>
   lanes (fst (processMessage example_env example_state ''What is my balance?'' None))
     (Some ''id-1'') =
     Some ([(User, ''What is my balance?''), (Assistant, ''Your balance is 100'')],
           [(User, ''What is my balance?''), (ToolResult, ''Your balance is 100''),
            (Assistant, ''Your balance is 100'')]) \<and>
   snd (processMessageStream example_env example_state ''What is my balance?'' None) =
     ([(''Your balance is 100'', False, None)] @ [([], True, Some ''id-1'')], None) \<and>
   lanes (fst (processMessageStream example_env example_state ''What is my balance?'' None))
     (Some ''id-1'') =
     Some ([(User, ''What is my balance?''), (Assistant, ''Your balance is 100'')],
           [(User, ''What is my balance?''), (ToolResult, ''Your balance is 100''),
            (Assistant, ''Your balance is 100'')]) \<and>
   (\<exists>calls. handled (fst (processMessage example_env example_state ''What is my balance?'' None)) =
      handled example_state @ calls \<and> list_all (\<lambda>c. snd c = ''What is my balance?'') calls) \<and>
   (\<exists>calls. handled (fst (processMessageStream example_env example_state ''What is my balance?'' None)) =
      handled example_state @ calls \<and> list_all (\<lambda>c. snd c = ''What is my balance?'') calls)"
proof -
  let ?d' = "[(User, ''What is my balance?''), (Assistant, ''Your balance is 100'')]"
  let ?r' = "[(User, ''What is my balance?''), (ToolResult, ''Your balance is 100''),
              (Assistant, ''Your balance is 100'')]"
  have l: "lanes example_state None = Some ([], [])" by simp
  have a: "create_agent example_env = Inr example_supervisor" by (simp add: example_env_def)
  have s: "run_stream example_supervisor = Some (the (run_stream example_supervisor))"
    by (simp add: example_supervisor_def)
  have sd: "spec_dispatch example_env ''What is my balance?''
              (run example_supervisor ''What is my balance?'' []) [] =
              (?d', Inr (''Your balance is 100'', ?r'))"
    by (simp add: example_defs spec_handle_def)
  have ss: "spec_dispatch_stream example_env ''What is my balance?''
              (the (run_stream example_supervisor) ''What is my balance?'' []) [] =
              (?d', [(''Your balance is 100'', False, None)], Inr ?r')"
    by (simp add: example_defs spec_handle_def)
  have res: "resolved example_env None = ''id-1''" by (simp add: example_env_def)
  show ?thesis
    using original_utterance_forwarded[OF l a, of "''What is my balance?''"
        "the (run_stream example_supervisor)"] s sd ss res
    by (simp del: lanes.simps resolved.simps)
qed

text \<open>
  C2. Starting from empty stores, after any sequence of streaming and non-streaming
  turns the two stores have the same key set. A lookup that finds only one of the two
  lanes is rejected, by the \<^verbatim>\<open>AgentThreadException\<close> in \<^verbatim>\<open>processMessage\<close> and by a
  single final error element in \<^verbatim>\<open>processMessageStream\<close>, and the stores are left as
  they were.
\<close>

theorem session_lanes_coupled:
  "(thread_store st = Map.empty \<and> supervisor_thread_store st = Map.empty \<longrightarrow>
      dom (thread_store (run_turns turns st)) = dom (supervisor_thread_store (run_turns turns st))) \<and>
   (create_agent env = Inr agent \<and>
    (thread_store s t = None) \<noteq> (supervisor_thread_store s t = None) \<longrightarrow>
      processMessage env s user_msg (Some t) = (s, Inl (not_found t)) \<and>
      processMessageStream env s user_msg (Some t) =
        (s, [(apology (not_found t), True, Some t)], None))"
proof (intro conjI impI)
  assume "thread_store st = Map.empty \<and> supervisor_thread_store st = Map.empty"
  then have "coupled st" by (simp add: coupled_def)
  then show "dom (thread_store (run_turns turns st)) = dom (supervisor_thread_store (run_turns turns st))"
    using run_turns_coupled[of st turns] by (simp add: coupled_def)
next
  assume a: "create_agent env = Inr agent \<and>
    (thread_store s t = None) \<noteq> (supervisor_thread_store s t = None)"
  then have m: "thread_store s t = None \<or> supervisor_thread_store s t = None" by auto
  show "processMessage env s user_msg (Some t) = (s, Inl (not_found t))"
    using a processMessage_missing[OF _ m] by blast
  show "processMessageStream env s user_msg (Some t) =
        (s, [(apology (not_found t), True, Some t)], None)"
    using a processMessageStream_missing[OF _ m] by blast
qed

theorem session_lanes_coupled_witness:
  "dom (thread_store (run_turns [Turn example_env ''What is my balance?'' None,
          StreamTurn example_env ''And now?'' (Some ''id-1'')] example_state)) =
   dom (supervisor_thread_store (run_turns [Turn example_env ''What is my balance?'' None,
          StreamTurn example_env ''And now?'' (Some ''id-1'')] example_state)) \<and>
   processMessage example_env one_lane_state ''hello'' (Some ''id-9'') =
     (one_lane_state, Inl (not_found ''id-9'')) \<and>
   processMessageStream example_env one_lane_state ''hello'' (Some ''id-9'') =
     (one_lane_state, [(apology (not_found ''id-9''), True, Some ''id-9'')], None)"
  using session_lanes_coupled[of example_state
      "[Turn example_env ''What is my balance?'' None,
        StreamTurn example_env ''And now?'' (Some ''id-1'')]"
      example_env example_supervisor one_lane_state "''id-9''" "''hello''"]
  by (simp add: example_state_def example_env_def one_lane_state_def)

text \<open>
  C3. For every turn that completes, the routing state stored is the thread as the
  router's own run left it, every responder was run on the dialogue thread with the
  caller's utterance, and the dialogue state stored is what those responder runs made of
  the dialogue state the turn started from; the router writes nothing to it. The routing
  tool returns the responder's text to the router, so the router's thread, and with it
  the routing state, can hold that text verbatim.
\<close>

theorem routing_state_is_the_routers_thread:
  assumes "lanes st thread_id = Some (d, r)"
    and "create_agent env = Inr agent"
    and "st1 = (fst (resume_thread env st thread_id))\<lparr>user_message := user_msg\<rparr>"
    and "pid = resolved env thread_id"
  shows "(exec_run env (run agent user_msg r) st1 = (st2, Inr (response_text, r')) \<longrightarrow>
          (\<exists>calls.
             handled (fst (processMessage env st user_msg thread_id)) = handled st @ calls \<and>
             list_all (\<lambda>c. snd c = user_msg) calls \<and>
             thread_store (fst (processMessage env st user_msg thread_id)) pid =
               Some (replay env calls d) \<and>
             supervisor_thread_store (fst (processMessage env st user_msg thread_id)) pid =
               Some r')) \<and>
         (run_stream agent = Some rs \<and>
          exec_stream env (rs user_msg r) st1 = (st3, chunks, Inr r') \<longrightarrow>
          (\<exists>calls.
             handled (fst (processMessageStream env st user_msg thread_id)) = handled st @ calls \<and>
             list_all (\<lambda>c. snd c = user_msg) calls \<and>
             thread_store (fst (processMessageStream env st user_msg thread_id)) pid =
               Some (replay env calls d) \<and>
             supervisor_thread_store (fst (processMessageStream env st user_msg thread_id)) pid =
               Some r'))"
proof -
  obtain s1 where rt: "resume_thread env st thread_id = (s1, Inr (pid, r))"
    and s1: "current_thread s1 = d" "handled s1 = handled st"
    using resume_thread_lanes[OF assms(1), of env] assms(4) by blast
  have st1: "st1 = s1\<lparr>user_message := user_msg\<rparr>" using assms(3) rt by simp
  show ?thesis
  proof (intro conjI impI)
    assume ex: "exec_run env (run agent user_msg r) st1 = (st2, Inr (response_text, r'))"
    have eff: "tools_effect env (s1\<lparr>user_message := user_msg\<rparr>) st2"
      using exec_run_effect[of env st1 "run agent user_msg r"] ex st1 by simp
    show "\<exists>calls.
             handled (fst (processMessage env st user_msg thread_id)) = handled st @ calls \<and>
             list_all (\<lambda>c. snd c = user_msg) calls \<and>
             thread_store (fst (processMessage env st user_msg thread_id)) pid =
               Some (replay env calls d) \<and>
             supervisor_thread_store (fst (processMessage env st user_msg thread_id)) pid =
               Some r'"
      using stored_lanes[OF eff s1(2) s1(1)] processMessage_returns[OF assms(2) rt] ex st1
      by simp
  next
    assume a: "run_stream agent = Some rs \<and>
          exec_stream env (rs user_msg r) st1 = (st3, chunks, Inr r')"
    have eff: "tools_effect env (s1\<lparr>user_message := user_msg\<rparr>) st3"
      using exec_stream_effect[of env st1 "rs user_msg r"] a st1 by simp
    show "\<exists>calls.
             handled (fst (processMessageStream env st user_msg thread_id)) = handled st @ calls \<and>
             list_all (\<lambda>c. snd c = user_msg) calls \<and>
             thread_store (fst (processMessageStream env st user_msg thread_id)) pid =
               Some (replay env calls d) \<and>
             supervisor_thread_store (fst (processMessageStream env st user_msg thread_id)) pid =
               Some r'"
      using stored_lanes[OF eff s1(2) s1(1)] processMessageStream_ends[OF assms(2) rt] a st1
      by simp
  qed
qed

theorem routing_state_is_the_routers_thread_witness:
  "(\<exists>calls.
      handled (fst (processMessage example_env example_state ''What is my balance?'' None)) =
        handled example_state @ calls \<and>
      list_all (\<lambda>c. snd c = ''What is my balance?'') calls \<and>
      thread_store (fst (processMessage example_env example_state ''What is my balance?'' None))
        ''id-1'' = Some (replay example_env calls []) \<and>
      supervisor_thread_store
        (fst (processMessage example_env example_state ''What is my balance?'' None)) ''id-1'' =
        Some [(User, ''What is my balance?''), (ToolResult, ''Your balance is 100''),
              (Assistant, ''Your balance is 100'')]) \<and>
   (\<exists>calls.
      handled (fst (processMessageStream example_env example_state ''What is my balance?'' None)) =
        handled example_state @ calls \<and>
      list_all (\<lambda>c. snd c = ''What is my balance?'') calls \<and>
      thread_store (fst (processMessageStream example_env example_state ''What is my balance?'' None))
        ''id-1'' = Some (replay example_env calls []) \<and>
      supervisor_thread_store
        (fst (processMessageStream example_env example_state ''What is my balance?'' None)) ''id-1'' =
        Some [(User, ''What is my balance?''), (ToolResult, ''Your balance is 100''),
              (Assistant, ''Your balance is 100'')])"
proof -
  let ?st1 = "(fst (resume_thread example_env example_state None))\<lparr>user_message := ''What is my balance?''\<rparr>"
  let ?st2 = "?st1\<lparr>current_thread := [(User, ''What is my balance?''), (Assistant, ''Your balance is 100'')],
                    handled := [(AccountAgent, ''What is my balance?'')]\<rparr>"
  let ?r' = "[(User, ''What is my balance?''), (ToolResult, ''Your balance is 100''),
              (Assistant, ''Your balance is 100'')]"
  have l: "lanes example_state None = Some ([], [])" by simp
  have a: "create_agent example_env = Inr example_supervisor" by (simp add: example_env_def)
  have s: "run_stream example_supervisor = Some (the (run_stream example_supervisor))"
    by (simp add: example_supervisor_def)
  have r: "exec_run example_env (run example_supervisor ''What is my balance?'' []) ?st1 =
             (?st2, Inr (''Your balance is 100'', ?r'))"
    by (simp add: example_defs turn_defs)
  have rs: "exec_stream example_env (the (run_stream example_supervisor) ''What is my balance?'' []) ?st1 =
             (?st2, [(''Your balance is 100'', False, None)], Inr ?r')"
    by (simp add: example_defs turn_defs)
  show ?thesis
    using routing_state_is_the_routers_thread[OF l a refl refl,
        of "''What is my balance?''" ?st2 "''Your balance is 100''" ?r'
           "the (run_stream example_supervisor)" ?st2 "[(''Your balance is 100'', False, None)]"]
      r rs s
    by (simp add: example_env_def)
qed

text \<open>
  The example supervisor routes to the account agent and keeps the tool result in its
  thread: the routing state stored holds the responder's output.
\<close>

theorem routing_state_holds_responder_output:
  "snd (sub_run example_account ''What is my balance?'' []) = Inr ''Your balance is 100'' \<and>
   handled (fst (processMessage example_env example_state ''What is my balance?'' None)) =
     [(AccountAgent, ''What is my balance?'')] \<and>
   supervisor_thread_store
     (fst (processMessage example_env example_state ''What is my balance?'' None)) ''id-1'' =
     Some [(User, ''What is my balance?''), (ToolResult, ''Your balance is 100''),
           (Assistant, ''Your balance is 100'')]"
  by (simp add: example_defs turn_defs)



text \<open>
  C5. A streaming turn on a stored session whose chunk sequence raises, after any number
  of chunks, has yielded the chunks relayed so far, and both stores are as before the
  turn. When what is raised is an \<^verbatim>\<open>Exception\<close>, one further element follows, final,
  with the "Streaming failed" message and the session id. When it is not (a
  cancellation), no further element follows and the exception leaves the generator.
\<close>

theorem mid_stream_failure_persists_nothing:
  assumes "create_agent env = Inr agent"
    and "run_stream agent = Some rs"
    and "thread_store st t = Some d"
    and "supervisor_thread_store st t = Some r"
    and "exec_stream env (rs user_msg r) (st\<lparr>current_thread := d, user_message := user_msg\<rparr>) =
           (st3, chunks, Inl e)"
  shows "processMessageStream env st user_msg (Some t) =
           (if is_Exception e
            then (st3, chunks @ [(streaming_failed e, True, Some t)], None)
            else (st3, chunks, Some e)) \<and>
         list_all relayed chunks \<and>
         thread_store st3 = thread_store st \<and>
         supervisor_thread_store st3 = supervisor_thread_store st"
proof -
  have rt: "resume_thread env st (Some t) = (st\<lparr>current_thread := d\<rparr>, Inr (t, r))"
    using resume_thread_found[OF assms(3,4)] .
  have eff: "tools_effect env (st\<lparr>current_thread := d, user_message := user_msg\<rparr>) st3 \<and>
             list_all relayed chunks"
    using exec_stream_effect[of env "st\<lparr>current_thread := d, user_message := user_msg\<rparr>"
        "rs user_msg r"] assms(5) by simp
  have "processMessageStream env st user_msg (Some t) =
           (if is_Exception e
            then (st3, chunks @ [(streaming_failed e, True, Some t)], None)
            else (st3, chunks, Some e))"
    using processMessageStream_raises[OF assms(1) rt assms(2), of user_msg st3 chunks e] assms(5)
    by simp
  then show ?thesis using eff by (simp add: tools_effect_def)
qed

theorem mid_stream_failure_persists_nothing_witness:
  "processMessageStream (example_env\<lparr>create_agent := Inr failing_supervisor\<rparr>) session_state
     ''What is my balance?'' (Some ''id-1'') =
     (session_state\<lparr>current_thread := [(User, ''Hello''), (Assistant, ''Hello, how can I help?'')],
                    user_message := ''What is my balance?''\<rparr>,
      [(''Your bal'', False, None)] @
      [(streaming_failed (Exception ''connection lost''), True, Some ''id-1'')], None) \<and>
   list_all relayed [(''Your bal'', False, None)] \<and>
   thread_store (session_state\<lparr>current_thread := [(User, ''Hello''), (Assistant, ''Hello, how can I help?'')],
                    user_message := ''What is my balance?''\<rparr>) = thread_store session_state \<and>
   supervisor_thread_store
     (session_state\<lparr>current_thread := [(User, ''Hello''), (Assistant, ''Hello, how can I help?'')],
                    user_message := ''What is my balance?''\<rparr>) = supervisor_thread_store session_state"
proof -
  have a: "create_agent (example_env\<lparr>create_agent := Inr failing_supervisor\<rparr>) = Inr failing_supervisor"
    by simp
  have s: "run_stream failing_supervisor =
      Some (\<lambda>m th. SChunk (Some ''Your bal'') (SRaise (Exception ''connection lost'')))"
    by (simp add: failing_supervisor_def)
  have d: "thread_store session_state ''id-1'' =
      Some [(User, ''Hello''), (Assistant, ''Hello, how can I help?'')]"
    by (simp add: session_state_def)
  have r: "supervisor_thread_store session_state ''id-1'' = Some [(User, ''Hello'')]"
    by (simp add: session_state_def)
  have ex: "exec_stream (example_env\<lparr>create_agent := Inr failing_supervisor\<rparr>)
       ((\<lambda>m th. SChunk (Some ''Your bal'') (SRaise (Exception ''connection lost'')))
          ''What is my balance?'' [(User, ''Hello'')])
       (session_state\<lparr>current_thread := [(User, ''Hello''), (Assistant, ''Hello, how can I help?'')],
                    user_message := ''What is my balance?''\<rparr>) =
     (session_state\<lparr>current_thread := [(User, ''Hello''), (Assistant, ''Hello, how can I help?'')],
                    user_message := ''What is my balance?''\<rparr>,
      [(''Your bal'', False, None)], Inl (Exception ''connection lost''))"
    by simp
  show ?thesis
    using mid_stream_failure_persists_nothing[OF a s d r ex] by simp
qed

text \<open>
  A streaming turn on a stored session whose stream is cancelled after one chunk: the
  chunk is all that is yielded, and the cancellation leaves the generator.
\<close>

theorem cancelled_stream_has_no_final_element:
  "snd (processMessageStream (example_env\<lparr>create_agent := Inr cancelled_supervisor\<rparr>) session_state
          ''What is my balance?'' (Some ''id-1'')) =
     ([(''Your bal'', False, None)], Some (BaseException ''CancelledError''))"
  by (simp add: example_defs session_state_def turn_defs)

text \<open>
  C6. When a supplied session id misses one or both lanes (and the agent was built), the
  streaming turn yields one final element with the error message and the same id, the
  non-streaming turn raises \<^verbatim>\<open>AgentThreadException\<close> naming the id, and in both the
  state is unchanged.
\<close>

theorem unknown_session_is_rejected:
  assumes "create_agent env = Inr agent"
    and "thread_store st t = None \<or> supervisor_thread_store st t = None"
  shows "processMessageStream env st user_msg (Some t) =
           (st, [(apology (not_found t), True, Some t)], None) \<and>
         processMessage env st user_msg (Some t) = (st, Inl (not_found t))"
  using processMessageStream_missing[OF assms] processMessage_missing[OF assms] by simp

theorem unknown_session_is_rejected_witness:
  "processMessageStream example_env example_state ''Hello'' (Some ''id-404'') =
     (example_state, [(apology (not_found ''id-404''), True, Some ''id-404'')], None) \<and>
   processMessage example_env example_state ''Hello'' (Some ''id-404'') =
     (example_state, Inl (not_found ''id-404''))"
proof -
  have a: "create_agent example_env = Inr example_supervisor" by (simp add: example_env_def)
  have m: "thread_store example_state ''id-404'' = None \<or>
           supervisor_thread_store example_state ''id-404'' = None"
    by (simp add: example_state_def)
  show ?thesis using unknown_session_is_rejected[OF a m] .
qed

text \<open>The non-streaming turn on an unknown session id ends in the exception.\<close>

theorem unknown_session_raises:
  "snd (processMessage example_env example_state ''Hello'' (Some ''id-404'')) =
     Inl (AgentThreadException ''Thread id id-404 not found in thread stores'')"
  by (simp add: example_defs turn_defs not_found_def)

text \<open>
  C7. When the router answers without invoking a routing tool, no responder is run, the
  response is the text the router's run returned, and both lanes are stored under the
  resolved id: the routing lane as the router left it, the dialogue lane with the content
  it had. The text is the router's; the code holds no fixed decline text.
\<close>

theorem unsupported_domain_turn:
  assumes "lanes st thread_id = Some (d, r)"
    and "create_agent env = Inr agent"
  shows "(run agent user_msg r = Return answer r' \<longrightarrow>
            snd (processMessage env st user_msg thread_id) = Inr (answer, resolved env thread_id) \<and>
            handled (fst (processMessage env st user_msg thread_id)) = handled st \<and>
            lanes (fst (processMessage env st user_msg thread_id)) (Some (resolved env thread_id)) =
              Some (d, r')) \<and>
         (run_stream agent = Some rs \<and> answered_alone (rs user_msg r) = Some (ys, r') \<longrightarrow>
            snd (processMessageStream env st user_msg thread_id) =
              (ys @ [([], True, Some (resolved env thread_id))], None) \<and>
            handled (fst (processMessageStream env st user_msg thread_id)) = handled st \<and>
            lanes (fst (processMessageStream env st user_msg thread_id))
              (Some (resolved env thread_id)) = Some (d, r'))"
proof -
  obtain st1 where rt: "resume_thread env st thread_id = (st1, Inr (resolved env thread_id, r))"
    and st1: "current_thread st1 = d" "handled st1 = handled st"
    using resume_thread_lanes[OF assms(1), of env] by blast
  show ?thesis
  proof (intro conjI impI)
    assume ret: "run agent user_msg r = Return answer r'"
    have ex: "exec_run env (run agent user_msg r) (st1\<lparr>user_message := user_msg\<rparr>) =
                (st1\<lparr>user_message := user_msg\<rparr>, Inr (answer, r'))"
      using ret by simp
    note pm = processMessage_returns[OF assms(2) rt ex]
    show "snd (processMessage env st user_msg thread_id) = Inr (answer, resolved env thread_id)"
      using pm by simp
    show "handled (fst (processMessage env st user_msg thread_id)) = handled st"
      using pm st1 by simp
    show "lanes (fst (processMessage env st user_msg thread_id)) (Some (resolved env thread_id)) =
            Some (d, r')"
      using pm st1 by simp
  next
    assume a: "run_stream agent = Some rs \<and> answered_alone (rs user_msg r) = Some (ys, r')"
    have ex: "exec_stream env (rs user_msg r) (st1\<lparr>user_message := user_msg\<rparr>) =
                (st1\<lparr>user_message := user_msg\<rparr>, ys, Inr r')"
      using a answered_alone_exec by simp
    have rs: "run_stream agent = Some rs" using a by simp
    note pm = processMessageStream_ends[OF assms(2) rt rs ex]
    show "snd (processMessageStream env st user_msg thread_id) =
            (ys @ [([], True, Some (resolved env thread_id))], None)"
      using pm by simp
    show "handled (fst (processMessageStream env st user_msg thread_id)) = handled st"
      using pm st1 by simp
    show "lanes (fst (processMessageStream env st user_msg thread_id))
            (Some (resolved env thread_id)) = Some (d, r')"
      using pm st1 by simp
  qed
qed

theorem unsupported_domain_turn_witness:
  "snd (processMessage (example_env\<lparr>create_agent := Inr (declining_supervisor ''I cannot help with that.'')\<rparr>)
         example_state ''What is the weather today?'' None) =
     Inr (''I cannot help with that.'', ''id-1'') \<and>
   handled (fst (processMessage
         (example_env\<lparr>create_agent := Inr (declining_supervisor ''I cannot help with that.'')\<rparr>)
         example_state ''What is the weather today?'' None)) = [] \<and>
   lanes (fst (processMessage
         (example_env\<lparr>create_agent := Inr (declining_supervisor ''I cannot help with that.'')\<rparr>)
         example_state ''What is the weather today?'' None)) (Some ''id-1'') =
     Some ([], [(User, ''What is the weather today?''), (Assistant, ''I cannot help with that.'')]) \<and>
   snd (processMessageStream
         (example_env\<lparr>create_agent := Inr (declining_supervisor ''I cannot help with that.'')\<rparr>)
         example_state ''What is the weather today?'' None) =
     ([(''I cannot help with that.'', False, None), ([], True, Some ''id-1'')], None) \<and>
   handled (fst (processMessageStream
         (example_env\<lparr>create_agent := Inr (declining_supervisor ''I cannot help with that.'')\<rparr>)
         example_state ''What is the weather today?'' None)) = [] \<and>
   lanes (fst (processMessageStream
         (example_env\<lparr>create_agent := Inr (declining_supervisor ''I cannot help with that.'')\<rparr>)
         example_state ''What is the weather today?'' None)) (Some ''id-1'') =
     Some ([], [(User, ''What is the weather today?''), (Assistant, ''I cannot help with that.'')])"
proof -
  let ?env = "example_env\<lparr>create_agent := Inr (declining_supervisor ''I cannot help with that.'')\<rparr>"
  let ?r' = "[(User, ''What is the weather today?''), (Assistant, ''I cannot help with that.'')]"
  let ?rs = "\<lambda>m th. SChunk (Some ''I cannot help with that.'')
               (SEnd (th @ [(User, m), (Assistant, ''I cannot help with that.'')]))"
  have l: "lanes example_state None = Some ([], [])" by simp
  have a: "create_agent ?env = Inr (declining_supervisor ''I cannot help with that.'')" by simp
  have r: "run (declining_supervisor ''I cannot help with that.'') ''What is the weather today?'' [] =
             Return ''I cannot help with that.'' ?r'"
    by (simp add: declining_supervisor_def)
  have s: "run_stream (declining_supervisor ''I cannot help with that.'') = Some ?rs"
    by (simp add: declining_supervisor_def)
  have aa: "answered_alone (?rs ''What is the weather today?'' []) =
              Some ([(''I cannot help with that.'', False, None)], ?r')"
    by simp
  have res: "resolved ?env None = ''id-1''" by (simp add: example_env_def)
  have h: "handled example_state = []" by (simp add: example_state_def)
  show ?thesis
    using unsupported_domain_turn[OF l a, of "''What is the weather today?''"
        "''I cannot help with that.''" ?r' ?rs "[(''I cannot help with that.'', False, None)]"]
      r s aa res h
    by (simp del: lanes.simps resolved.simps)
qed

text \<open>Two turns that both end without a responder, with different response texts.\<close>

theorem decline_text_is_not_fixed:
  "snd (processMessage (example_env\<lparr>create_agent := Inr (declining_supervisor ''I cannot help with that.'')\<rparr>)
         example_state ''What is the weather today?'' None) =
     Inr (''I cannot help with that.'', ''id-1'') \<and>
   snd (processMessage (example_env\<lparr>create_agent := Inr (declining_supervisor ''Sorry, ask me about banking.'')\<rparr>)
         example_state ''What is the weather today?'' None) =
     Inr (''Sorry, ask me about banking.'', ''id-1'') \<and>
   ''I cannot help with that.'' \<noteq> ''Sorry, ask me about banking.''"
  by (simp add: example_defs turn_defs)



text \<open>
  C9. The capability the code tests is on the supervisor's own chat agent, after the
  session was resolved and before anything is routed. When that agent has no
  \<^verbatim>\<open>run_stream\<close>, the turn yields exactly one element, final, with the fixed message and
  the resolved session id; no responder is run and both lanes of the session are present
  afterwards, with the content the turn started from.
\<close>

theorem streaming_unsupported_turn:
  assumes "lanes st thread_id = Some (d, r)"
    and "create_agent env = Inr agent"
    and "run_stream agent = None"
  shows "snd (processMessageStream env st user_msg thread_id) =
           ([(streaming_unsupported, True, Some (resolved env thread_id))], None) \<and>
         handled (fst (processMessageStream env st user_msg thread_id)) = handled st \<and>
         lanes (fst (processMessageStream env st user_msg thread_id))
           (Some (resolved env thread_id)) = Some (d, r)"
proof -
  obtain st1 where rt: "resume_thread env st thread_id = (st1, Inr (resolved env thread_id, r))"
    and st1: "handled st1 = handled st"
      "lanes st1 (Some (resolved env thread_id)) = Some (d, r)"
    using resume_thread_lanes[OF assms(1), of env] by blast
  show ?thesis
    using processMessageStream_unsupported[OF assms(2) rt assms(3)] st1 by simp
qed

theorem streaming_unsupported_turn_witness:
  "snd (processMessageStream (example_env\<lparr>create_agent := Inr (example_supervisor\<lparr>run_stream := None\<rparr>)\<rparr>)
         session_state ''What is my balance?'' (Some ''id-1'')) =
     ([(streaming_unsupported, True, Some ''id-1'')], None) \<and>
   handled (fst (processMessageStream
         (example_env\<lparr>create_agent := Inr (example_supervisor\<lparr>run_stream := None\<rparr>)\<rparr>)
         session_state ''What is my balance?'' (Some ''id-1''))) = [] \<and>
   lanes (fst (processMessageStream
         (example_env\<lparr>create_agent := Inr (example_supervisor\<lparr>run_stream := None\<rparr>)\<rparr>)
         session_state ''What is my balance?'' (Some ''id-1''))) (Some ''id-1'') =
     Some ([(User, ''Hello''), (Assistant, ''Hello, how can I help?'')], [(User, ''Hello'')])"
proof -
  let ?env = "example_env\<lparr>create_agent := Inr (example_supervisor\<lparr>run_stream := None\<rparr>)\<rparr>"
  have l: "lanes session_state (Some ''id-1'') =
      Some ([(User, ''Hello''), (Assistant, ''Hello, how can I help?'')], [(User, ''Hello'')])"
    by (simp add: session_state_def)
  have a: "create_agent ?env = Inr (example_supervisor\<lparr>run_stream := None\<rparr>)" by simp
  have n: "run_stream (example_supervisor\<lparr>run_stream := None\<rparr>) = None" by simp
  have h: "handled session_state = []" by (simp add: session_state_def example_state_def)
  show ?thesis
    using streaming_unsupported_turn[OF l a n, of "''What is my balance?''"] h
    by (simp del: lanes.simps)
qed

text \<open>
  A streaming turn that selects the account agent, which has no streaming capability:
  the responder is run and its answer is relayed.
\<close>

theorem responder_without_streaming_is_dispatched:
  "sub_run_stream example_account = None \<and>
   handled (fst (processMessageStream example_env example_state ''What is my balance?'' None)) =
     [(AccountAgent, ''What is my balance?'')] \<and>
   snd (processMessageStream example_env example_state ''What is my balance?'' None) =
     ([(''Your balance is 100'', False, None), ([], True, Some ''id-1'')], None)"
  by (simp add: example_defs turn_defs)

text \<open>
  C10. Whenever the payment object is built and the payment service call returns, the
  tool returns \<^verbatim>\<open>{"status": "ok"}\<close>, whatever the arguments; and any dictionary the tool
  returns is that one.
\<close>

theorem process_payment_returns_ok:
  "(Payment \<lparr>accountId = account_id, amount = amount', description = description',
             recipientName = recipient_name, recipientBankCode = recipient_bank_code,
             paymentMethodId = payment_method_id, paymentType = payment_type,
             timestamp = timestamp'\<rparr> = Inr payment_obj \<and>
    payment_service_process_payment payment_obj = Inr returned \<longrightarrow>
      process_payment Payment payment_service_process_payment account_id amount' description'
        payment_method_id timestamp' recipient_name recipient_bank_code payment_type =
        Inr [''status'' \<mapsto> ''ok'']) \<and>
   (process_payment Payment payment_service_process_payment account_id amount' description'
        payment_method_id timestamp' recipient_name recipient_bank_code payment_type = Inr result \<longrightarrow>
      result = [''status'' \<mapsto> ''ok''])"
  by (auto simp: process_payment_def split: sum.splits)

theorem process_payment_returns_ok_witness:
  "process_payment Inr (\<lambda>p. Inr ()) ''acc-1'' (- 5) ''payment for invoice 1527248''
     ''pm-1'' ''2025-01-01T10:00:00'' None None None = Inr [''status'' \<mapsto> ''ok'']"
  using process_payment_returns_ok[of Inr "''acc-1''" "- 5" "''payment for invoice 1527248''"
      None None "''pm-1''" None "''2025-01-01T10:00:00''" _ "\<lambda>p. Inr ()" "()"
      "[''status'' \<mapsto> ''ok'']"]
  by simp

end
